theory Spec2Isabelle
  imports Main "HOL-Library.DAList"
begin

section \<open>The orchestrator script \<open>action/run-in-renode.py\<close>\<close>

text \<open>
  The script is the entry point of the action. It resolves the board, stages kernel and
  root file system, collects the optional tasks, builds a \<open>CommandDispatcher\<close>, applies
  the activation rules, installs the user's test task and evaluates the dispatcher.

  Everything the script imports (\<open>command\<close>, \<open>common\<close>, \<open>devices\<close>, \<open>dependencies\<close>,
  \<open>images\<close>, \<open>dispatcher\<close>) lives in other modules. The embedding keeps the script's own
  control flow and records every call that leaves the script in a log, in the order
  the calls are made. What a collaborator returns is taken from an environment record.
  A collaborator is taken to return normally, with two exceptions that the script itself
  reacts to: the two \<open>Task\<close> constructors may raise (the script catches
  \<open>yaml.YAMLError\<close>), and \<open>error\<close> ends the run.

  Strings are ASCII character lists.
\<close>

subsection \<open>Exceptions\<close>

datatype exn =
    Fatal string          \<comment> \<open>the run ended by \<open>error(msg)\<close>\<close>
  | SysExit nat           \<comment> \<open>\<open>sys.exit(n)\<close>\<close>
  | KeyError string       \<comment> \<open>subscript of a mapping at a missing key\<close>
  | YAMLError             \<comment> \<open>\<open>yaml.YAMLError\<close> (and its subclasses)\<close>
  | AttributeError string
  | Raised string         \<comment> \<open>any other exception of a \<open>Task\<close> constructor\<close>

subsection \<open>Data\<close>

text \<open>An entry of the table \<open>archs\<close> of the module \<open>common\<close>; the script reads two attributes.\<close>

record arch =
  default_board :: string
  network_available :: bool

text \<open>An entry of \<open>shared_directories_actions\<close> of the module \<open>images\<close>.\<close>

record shared_dir =
  host :: string
  target :: string

text \<open>The values of the dict literal \<open>params\<close> of \<open>test_task\<close>.\<close>

datatype pyval = Str string | StrList "string list" | Bool bool

type_synonym params = "(string \<times> pyval) list"

text \<open>What \<open>json.loads\<close> gives for the first command-line argument.\<close>

datatype json =
    JSONDecodeError
  | JNull
  | JObject "string \<rightharpoonup> string"
  | JOther

text \<open>
  The calls that leave the script. \<open>'t\<close> is the type of \<open>Task\<close> objects, \<open>'v\<close> the type of
  the parameter dicts of optional tasks; the script inspects neither.
\<close>

datatype ('t, 'v) call =
    GetFile string string string
      \<comment> \<open>\<open>get_file(src, dst, path_context=ctx)\<close>\<close>
  | PrepareKernelAndInitramfs string string
  | PrepareSharedDirectories string
  | AddDevices string
  | AddPackages string string
  | AddRepos string
  | BurnRootfsImage string string string string string
  | NewDispatcher string "(string \<times> string) list" "(string, 'v) alist"
      \<comment> \<open>\<open>CommandDispatcher(board, variables, optional_tasks)\<close>\<close>
  | EnableTask string bool
  | AddTask 't
  | Evaluate
  | LoadFromYaml string params
  | FromMultilineString string string params
  | Run "string list"
  | CopyTree string string

text \<open>
  The state the script changes: the log of calls and the module-level list \<open>commands\<close>
  (lines 41 to 43).
\<close>

record ('t, 'v) world =
  calls :: "('t, 'v) call list"
  commands :: "string list list"

definition initial_world :: "('t, 'v) world" where
  "initial_world = \<lparr>calls = [], commands = [[''mkdir'', ''rootfs'']]\<rparr>"

text \<open>What the collaborators and the Python library return.\<close>

record ('t, 'v) env =
  archs :: "string \<rightharpoonup> arch"
  add_devices :: "string \<Rightarrow> (string, 'v) alist"
  add_packages :: "string \<Rightarrow> string \<Rightarrow> (string, 'v) alist"
  load_from_yaml :: "string \<Rightarrow> params \<Rightarrow> exn + 't"
  from_multiline_string :: "string \<Rightarrow> string \<Rightarrow> params \<Rightarrow> exn + 't"
  json_loads :: "string \<Rightarrow> json"
  strftime_now :: "string \<Rightarrow> string"
      \<comment> \<open>\<open>datetime.now().strftime(fmt)\<close>\<close>
  shared_directories_actions :: "shared_dir list"
  path_exists :: "string \<Rightarrow> bool"

subsection \<open>Sequencing with exceptions\<close>

type_synonym ('a, 't, 'v) prog = "('t, 'v) world \<Rightarrow> (exn + 'a) \<times> ('t, 'v) world"

definition ret :: "'a \<Rightarrow> ('a, 't, 'v) prog" where
  "ret x = (\<lambda>w. (Inr x, w))"

definition throw :: "exn \<Rightarrow> ('a, 't, 'v) prog" where
  "throw e = (\<lambda>w. (Inl e, w))"

definition bnd :: "('a, 't, 'v) prog \<Rightarrow> ('a \<Rightarrow> ('b, 't, 'v) prog) \<Rightarrow> ('b, 't, 'v) prog" where
  "bnd m f = (\<lambda>w. case m w of (Inl e, w') \<Rightarrow> (Inl e, w') | (Inr x, w') \<Rightarrow> f x w')"

definition emit :: "('t, 'v) call \<Rightarrow> (unit, 't, 'v) prog" where
  "emit c = (\<lambda>w. (Inr (), w\<lparr>calls := calls w @ [c]\<rparr>))"

definition whenM :: "bool \<Rightarrow> (unit, 't, 'v) prog \<Rightarrow> (unit, 't, 'v) prog" where
  "whenM b m = (if b then m else ret ())"

text \<open>A \<open>for\<close> loop over a list: the body runs for each element in order; an exception ends it.\<close>

fun for_each :: "'a list \<Rightarrow> ('a \<Rightarrow> (unit, 't, 'v) prog) \<Rightarrow> (unit, 't, 'v) prog" where
  "for_each [] body = ret ()"
| "for_each (x # xs) body = bnd (body x) (\<lambda>_. for_each xs body)"

subsection \<open>Python library functions\<close>

text \<open>\<open>d.get(k, default)\<close>\<close>

definition dict_get :: "('k \<rightharpoonup> 'a) \<Rightarrow> 'k \<Rightarrow> 'a \<Rightarrow> 'a" where
  "dict_get d k dflt = (case d k of None \<Rightarrow> dflt | Some v \<Rightarrow> v)"

text \<open>
  \<open>d1 | d2\<close> on dicts: a copy of \<open>d1\<close> updated with the items of \<open>d2\<close> in their order. A key
  that is already present keeps its position and takes the new value; a new key goes
  to the end.
\<close>

definition dict_union :: "('k, 'a) alist \<Rightarrow> ('k, 'a) alist \<Rightarrow> ('k, 'a) alist" where
  "dict_union d1 d2 = fold (\<lambda>(k, v). DAList.update k v) (DAList.impl_of d2) d1"

text \<open>The keys of a dict in iteration order.\<close>

definition dict_keys :: "('k, 'a) alist \<Rightarrow> 'k list" where
  "dict_keys d = map fst (DAList.impl_of d)"

text \<open>\<open>str.isspace\<close> on ASCII: tab, line feed, vertical tab, form feed, carriage return,
  the four separators 28 to 31, and the space.\<close>

definition is_space :: "char \<Rightarrow> bool" where
  "is_space c = (of_char c \<in> {9, 10, 11, 12, 13, 28, 29, 30, 31, 32 :: nat})"

definition strip :: "string \<Rightarrow> string" where
  "strip s = rev (dropWhile is_space (rev (dropWhile is_space s)))"

text \<open>The line boundaries of \<open>str.splitlines\<close> on ASCII, apart from the pair CR LF.\<close>

definition is_linebreak :: "char \<Rightarrow> bool" where
  "is_linebreak c = (of_char c \<in> {10, 11, 12, 13, 28, 29, 30 :: nat})"

fun splitlines_acc :: "string \<Rightarrow> string \<Rightarrow> string list" where
  "splitlines_acc cur [] = (if cur = [] then [] else [cur])"
| "splitlines_acc cur [c] =
     (if is_linebreak c then [cur] else [cur @ [c]])"
| "splitlines_acc cur (c # d # cs) =
     (if of_char c = (13 :: nat) \<and> of_char d = (10 :: nat) then cur # splitlines_acc [] cs
      else if is_linebreak c then cur # splitlines_acc [] (d # cs)
      else splitlines_acc (cur @ [c]) (d # cs))"

definition splitlines :: "string \<Rightarrow> string list" where
  "splitlines s = splitlines_acc [] s"

text \<open>\<open>str(n)\<close> for a natural number, as the f-string of line 177 renders the index.\<close>

fun str_nat :: "nat \<Rightarrow> string" where
  "str_nat n =
     (if n < 10 then [char_of (48 + n)]
      else str_nat (n div 10) @ [char_of (48 + n mod 10)])"

text \<open>\<open>enumerate(xs)\<close>\<close>

definition enumerate_list :: "'a list \<Rightarrow> (nat \<times> 'a) list" where
  "enumerate_list xs = zip [0 ..< length xs] xs"

subsection \<open>Collaborators\<close>

text \<open>
  Modelled from the spec: \<open>error\<close> of the module \<open>common\<close> is not among the sources. Every
  fatal condition terminates the whole run with a message (section 6 of the
  specification), so \<open>error(msg)\<close> does not return.
\<close>

definition error :: "string \<Rightarrow> ('a, 't, 'v) prog" where
  "error msg = throw (Fatal msg)"

definition get_file :: "string \<Rightarrow> string \<Rightarrow> string \<Rightarrow> (unit, 't, 'v) prog" where
  "get_file src dst path_context = emit (GetFile src dst path_context)"

text \<open>\<open>archs[arch]\<close>: a subscript, which raises at a missing key.\<close>

definition archs_getitem :: "('t, 'v) env \<Rightarrow> string \<Rightarrow> (arch, 't, 'v) prog" where
  "archs_getitem env a = (case archs env a of None \<Rightarrow> throw (KeyError a) | Some r \<Rightarrow> ret r)"

subsection \<open>Constants (lines 37 and 38)\<close>

text \<open>\<open>DEFAULT_IMAGE_PATH.format(repo, ref, arch)\<close>\<close>

definition DEFAULT_IMAGE_PATH :: "string \<Rightarrow> string \<Rightarrow> string \<Rightarrow> string" where
  "DEFAULT_IMAGE_PATH repo ref a =
     ''https://github.com/'' @ repo @ ''/releases/download/'' @ ref @ ''/image-'' @ a
       @ ''-default.tar.xz''"

text \<open>\<open>DEFAULT_KERNEL_PATH.format(repo, ref, arch, board)\<close>\<close>

definition DEFAULT_KERNEL_PATH :: "string \<Rightarrow> string \<Rightarrow> string \<Rightarrow> string \<Rightarrow> string" where
  "DEFAULT_KERNEL_PATH repo ref a b =
     ''https://github.com/'' @ repo @ ''/releases/download/'' @ ref @ ''/kernel-'' @ a
       @ ''-'' @ b @ ''.tar.xz''"

subsection \<open>\<open>configure_board\<close> (lines 46 to 86)\<close>

definition configure_board ::
  "('t, 'v) env \<Rightarrow> string \<Rightarrow> string \<Rightarrow> string \<Rightarrow> string \<Rightarrow> string \<Rightarrow> string
     \<Rightarrow> (string \<times> string, 't, 'v) prog" where
  "configure_board env user_directory custom_config a board resc repl =
     (if custom_config \<noteq> ''none'' then
        bnd (get_file custom_config ''action/device/custom'' user_directory) (\<lambda>_.
        ret (a, ''custom''))
      else
        bnd (whenM (archs env a = None) (error ''Architecture not supportted!'')) (\<lambda>_.
        bnd (if board = ''default''
             then bnd (archs_getitem env a) (\<lambda>r. ret (default_board r))
             else ret board) (\<lambda>board.
        bnd (whenM (board = ''custom'' \<and> (resc = ''default'' \<or> repl = ''default''))
               (error ''You have to provide resc and repl for custom board'')) (\<lambda>_.
        bnd (whenM (resc \<noteq> ''default'')
               (get_file resc (''action/device/'' @ board @ ''/init.resc'') user_directory)) (\<lambda>_.
        bnd (whenM (repl \<noteq> ''default'')
               (get_file resc (''action/device/'' @ board @ ''/platform.repl'') user_directory)) (\<lambda>_.
        ret (a, board)))))))"

subsection \<open>\<open>test_task\<close> (lines 89 to 101)\<close>

definition test_params :: params where
  "test_params =
     [(''name'', Str ''action_test''),
      (''shell'', Str ''target''),
      (''requires'', StrList [''chroot'', ''python'']),
      (''echo'', Bool True)]"

text \<open>
  The \<open>try\<close> calls \<open>Task.load_from_yaml\<close>; the handler is entered for \<open>yaml.YAMLError\<close> only
  and calls \<open>Task.from_multiline_string\<close>. Any other exception of either call leaves
  \<open>test_task\<close>.
\<close>

definition test_task :: "('t, 'v) env \<Rightarrow> string \<Rightarrow> ('t, 't, 'v) prog" where
  "test_task env test_task_str =
     bnd (emit (LoadFromYaml test_task_str test_params)) (\<lambda>_.
     case load_from_yaml env test_task_str test_params of
       Inr t \<Rightarrow> ret t
     | Inl YAMLError \<Rightarrow>
         bnd (emit (FromMultilineString ''action_test'' test_task_str test_params)) (\<lambda>_.
         case from_multiline_string env ''action_test'' test_task_str test_params of
           Inr t \<Rightarrow> ret t
         | Inl e \<Rightarrow> throw e)
     | Inl e \<Rightarrow> throw e)"

subsection \<open>\<open>prepare_image\<close> (lines 104 to 124)\<close>

text \<open>
  \<open>action_repo\<close> and \<open>action_ref\<close> are module globals that lines 141 and 142 bind before
  the only call of \<open>prepare_image\<close>; here they are the first two arguments.
\<close>

definition prepare_image ::
  "string \<Rightarrow> string \<Rightarrow> string \<Rightarrow> string \<Rightarrow> string \<Rightarrow> string \<Rightarrow> string \<Rightarrow> (unit, 't, 'v) prog" where
  "prepare_image action_repo action_ref user_directory image' a rootfs_size image_type =
     (if image' = ''none'' then ret ()
      else
        bnd (ret (if strip image' = '''' then DEFAULT_IMAGE_PATH action_repo action_ref a
                  else image')) (\<lambda>image'.
        bnd (emit (BurnRootfsImage user_directory image' a rootfs_size image_type)) (\<lambda>_.
        (\<lambda>w. (Inr (), w\<lparr>commands := commands w @ [[''sudo'', ''mount'', ''images/rootfs.img'', ''rootfs'']]\<rparr>)))))"

subsection \<open>The main block (lines 127 to 202)\<close>

text \<open>Lines 144 to 177: the board, the kernel, the shared directories, the optional
  tasks, the repositories, the image and the user's task files. The block yields the
  architecture, the board and the merged optional tasks.\<close>

definition stage ::
  "('t, 'v) env \<Rightarrow> (string \<rightharpoonup> string) \<Rightarrow> string \<Rightarrow> string \<Rightarrow> string
     \<Rightarrow> (string \<times> string \<times> (string, 'v) alist, 't, 'v) prog" where
  "stage env args user_directory action_repo action_ref =
     bnd (configure_board env user_directory
            (dict_get args ''custom-config'' ''none'')
            (dict_get args ''arch'' ''riscv64'')
            (dict_get args ''board'' ''default'')
            (dict_get args ''resc'' ''default'')
            (dict_get args ''repl'' ''default'')) (\<lambda>(a, board).
     bnd (ret (dict_get args ''kernel'' '''')) (\<lambda>kernel.
     bnd (if strip kernel = '''' \<and> board = ''custom''
          then error ''You have to provide custom kernel for custom board.''
          else if strip kernel = ''''
          then ret (DEFAULT_KERNEL_PATH action_repo action_ref a board)
          else ret kernel) (\<lambda>kernel.
     bnd (emit (PrepareKernelAndInitramfs user_directory kernel)) (\<lambda>_.
     bnd (emit (PrepareSharedDirectories (dict_get args ''shared-dirs'' ''''))) (\<lambda>_.
     bnd (emit (AddDevices (dict_get args ''devices'' ''''))) (\<lambda>_.
     bnd (ret (add_devices env (dict_get args ''devices'' ''''))) (\<lambda>devices.
     bnd (emit (AddPackages a (dict_get args ''python-packages'' ''''))) (\<lambda>_.
     bnd (ret (add_packages env a (dict_get args ''python-packages'' ''''))) (\<lambda>python_packages.
     bnd (ret (dict_union devices python_packages)) (\<lambda>optional_tasks.
     bnd (emit (AddRepos (dict_get args ''repos'' ''''))) (\<lambda>_.
     bnd (prepare_image action_repo action_ref user_directory
            (dict_get args ''image'' '''')
            a
            (dict_get args ''rootfs-size'' ''auto'')
            (dict_get args ''image-type'' ''native'')) (\<lambda>_.
     bnd (for_each (enumerate_list (splitlines (dict_get args ''tasks'' ''''))) (\<lambda>(it, custom_task).
            get_file custom_task (''action/user_tasks/task'' @ str_nat it @ ''.yml'') user_directory)) (\<lambda>_.
     ret (a, board, optional_tasks))))))))))))))"

text \<open>Lines 179 to 182: the variables handed to the dispatcher.\<close>

definition template_variables :: "('t, 'v) env \<Rightarrow> string \<Rightarrow> (string \<times> string) list" where
  "template_variables env board =
     [(''NOW'', strftime_now env ''%Y-%m-%d %H:%M:%S''), (''BOARD'', board)]"

text \<open>Lines 184 and 185.\<close>

definition enable_optional_tasks :: "(string, 'v) alist \<Rightarrow> (unit, 't, 'v) prog" where
  "enable_optional_tasks optional_tasks =
     for_each (dict_keys optional_tasks) (\<lambda>task. emit (EnableTask task True))"

text \<open>Lines 187 to 189. The \<open>or\<close> evaluates \<open>archs[arch]\<close> only when its left operand is false.\<close>

definition disable_network_tasks ::
  "('t, 'v) env \<Rightarrow> (string \<rightharpoonup> string) \<Rightarrow> string \<Rightarrow> (unit, 't, 'v) prog" where
  "disable_network_tasks env args a =
     bnd (if dict_get args ''network'' ''true'' \<noteq> ''true'' then ret True
          else bnd (archs_getitem env a) (\<lambda>r. ret (\<not> network_available r))) (\<lambda>off.
     whenM off
       (for_each [''host'', ''renode'', ''target''] (\<lambda>i.
          emit (EnableTask (i @ ''_network'') False))))"

text \<open>Lines 179 to 193: the dispatcher is built, the activation rules are applied, the
  test task is resolved and added, and the dispatcher is evaluated.\<close>

definition dispatch ::
  "('t, 'v) env \<Rightarrow> (string \<rightharpoonup> string) \<Rightarrow> string \<Rightarrow> string \<Rightarrow> (string, 'v) alist
     \<Rightarrow> (unit, 't, 'v) prog" where
  "dispatch env args a board optional_tasks =
     bnd (emit (NewDispatcher board (template_variables env board) optional_tasks)) (\<lambda>_.
     bnd (enable_optional_tasks optional_tasks) (\<lambda>_.
     bnd (disable_network_tasks env args a) (\<lambda>_.
     bnd (test_task env (dict_get args ''renode-run'' '''')) (\<lambda>t.
     bnd (emit (AddTask t)) (\<lambda>_.
     emit Evaluate)))))"

text \<open>Lines 195 to 202: the collected commands run, then the shared directories are
  copied back.\<close>

definition finish :: "('t, 'v) env \<Rightarrow> string \<Rightarrow> (unit, 't, 'v) prog" where
  "finish env user_directory =
     bnd (\<lambda>w. for_each (commands w) (\<lambda>command. emit (Run command)) w) (\<lambda>_.
     for_each (shared_directories_actions env) (\<lambda>dir.
       bnd (ret (''rootfs/'' @ target dir)) (\<lambda>src.
       bnd (ret (if take 1 (host dir) \<noteq> ''/'' then user_directory @ ''/'' @ host dir
                 else host dir)) (\<lambda>dst.
       whenM (path_exists env src) (emit (CopyTree src dst))))))"

text \<open>The whole block; \<open>argv\<close> is \<open>sys.argv\<close>.\<close>

definition main :: "('t, 'v) env \<Rightarrow> string list \<Rightarrow> (unit, 't, 'v) prog" where
  "main env argv =
     bnd (whenM (length argv \<noteq> 5) (error ''Wrong number of arguments'')) (\<lambda>_.
     bnd (case json_loads env (argv ! 1) of
            JSONDecodeError \<Rightarrow> error (''JSON decoder error for string: '' @ argv ! 1)
          | JNull \<Rightarrow> throw (SysExit 1)
          | JOther \<Rightarrow> throw (AttributeError ''get'')
          | JObject args \<Rightarrow> ret args) (\<lambda>args.
     bnd (ret (argv ! 2, argv ! 3, argv ! 4)) (\<lambda>(user_directory, action_repo, action_ref).
     bnd (stage env args user_directory action_repo action_ref) (\<lambda>(a, board, optional_tasks).
     bnd (dispatch env args a board optional_tasks) (\<lambda>_.
     finish env user_directory)))))"

declare str_nat.simps [simp del]

subsection \<open>The class \<open>Task\<close>\<close>

text \<open>
  Modelled from the spec: the class \<open>Task\<close> of the module \<open>command\<close> is not among the
  sources. Section 3 of the specification gives its fields. Section 4.1 gives the two
  constructors: \<open>load_from_yaml\<close> parses the text as a YAML document describing one task,
  fields present in the overrides replace the parsed ones, and it fails with a parse error
  if the text is not valid YAML for the schema; \<open>from_multiline_string\<close> builds a task
  whose body is the line-split text, takes the declared fields from the parameters and
  the supplied name, and never fails. The YAML parser and the engine defaults are
  parameters.
\<close>

record task =
  name :: string
  shell :: string
  requires :: "string list"
  echo :: bool
  body :: "string list"
  enabled :: bool

definition override :: "string \<times> pyval \<Rightarrow> task \<Rightarrow> task" where
  "override kv t =
     (case kv of
        (k, Str s) \<Rightarrow>
          if k = ''name'' then t\<lparr>name := s\<rparr>
          else if k = ''shell'' then t\<lparr>shell := s\<rparr>
          else t
      | (k, StrList xs) \<Rightarrow> if k = ''requires'' then t\<lparr>requires := xs\<rparr> else t
      | (k, Bool b) \<Rightarrow> if k = ''echo'' then t\<lparr>echo := b\<rparr> else t)"

definition apply_params :: "params \<Rightarrow> task \<Rightarrow> task" where
  "apply_params ps t = fold override ps t"

definition Task_load_from_yaml ::
  "(string \<Rightarrow> task option) \<Rightarrow> string \<Rightarrow> params \<Rightarrow> exn + task" where
  "Task_load_from_yaml parse text overrides =
     (case parse text of
        None \<Rightarrow> Inl YAMLError
      | Some t \<Rightarrow> Inr (apply_params overrides t))"

definition Task_from_multiline_string ::
  "task \<Rightarrow> string \<Rightarrow> string \<Rightarrow> params \<Rightarrow> exn + task" where
  "Task_from_multiline_string defaults n text ps =
     Inr ((apply_params ps defaults)\<lparr>name := n, body := splitlines text\<rparr>)"

text \<open>An environment whose two \<open>Task\<close> constructors are the ones above.\<close>

definition spec_tasks ::
  "(string \<Rightarrow> task option) \<Rightarrow> task \<Rightarrow> (task, 'v) env \<Rightarrow> (task, 'v) env" where
  "spec_tasks parse defaults env =
     env\<lparr>load_from_yaml := Task_load_from_yaml parse,
         from_multiline_string := Task_from_multiline_string defaults\<rparr>"

subsection \<open>Predicates on the log of calls\<close>

text \<open>A call \<open>enable_task(name, False)\<close>.\<close>

definition is_disable :: "('t, 'v) call \<Rightarrow> bool" where
  "is_disable c = (case c of EnableTask n b \<Rightarrow> \<not> b | _ \<Rightarrow> False)"

definition is_enable_task :: "('t, 'v) call \<Rightarrow> bool" where
  "is_enable_task c = (case c of EnableTask n b \<Rightarrow> True | _ \<Rightarrow> False)"

definition is_add_task :: "('t, 'v) call \<Rightarrow> bool" where
  "is_add_task c = (case c of AddTask t \<Rightarrow> True | _ \<Rightarrow> False)"

text \<open>
  The order "the catalog is complete before the activation rules are applied": once a
  task has been enabled or disabled, no task is added any more.
\<close>

definition catalog_complete_before_activation :: "('t, 'v) call list \<Rightarrow> bool" where
  "catalog_complete_before_activation tr =
     (\<not> list_ex is_add_task (dropWhile (\<lambda>c. \<not> is_enable_task c) tr))"

subsection \<open>A concrete environment\<close>

text \<open>
  Two architectures, one without network; devices and packages that share the task name
  \<open>shared\<close>; no text is YAML; \<open>json.loads\<close> gives the dict \<open>args\<close>.
\<close>

definition example_env :: "(string \<rightharpoonup> string) \<Rightarrow> (string, nat) env" where
  "example_env args =
     \<lparr>archs = map_of
        [(''riscv64'', \<lparr>default_board = ''hifive_unleashed'', network_available = True\<rparr>),
         (''arm32'', \<lparr>default_board = ''zynq_7000'', network_available = False\<rparr>)],
      add_devices = (\<lambda>s. if s = '''' then DAList.empty
         else DAList.update ''shared'' 2 (DAList.update ''gpio'' 1 DAList.empty)),
      add_packages = (\<lambda>a s. if s = '''' then DAList.empty
         else DAList.update ''numpy'' 4 (DAList.update ''shared'' 3 DAList.empty)),
      load_from_yaml = (\<lambda>s p. Inl YAMLError),
      from_multiline_string = (\<lambda>n s p. Inr n),
      json_loads = (\<lambda>s. JObject args),
      strftime_now = (\<lambda>fmt. ''2023-05-17 09:30:00''),
      shared_directories_actions = [],
      path_exists = (\<lambda>p. True)\<rparr>"

definition example_argv :: "string list" where
  "example_argv = [''run-in-renode.py'', ''{}'', ''/github/workspace'', ''owner/action'', ''v1'']"

section \<open>Properties\<close>

subsection \<open>Sequencing\<close>

lemma bnd_ret [simp]: "bnd (ret x) f = f x"
  by (simp add: bnd_def ret_def)

lemma bnd_throw [simp]: "bnd (throw e) f = throw e"
  by (simp add: bnd_def throw_def)

lemma bnd_error [simp]: "bnd (error msg) f = error msg"
  by (simp add: error_def)

lemma bnd_Inr [simp]: "bnd (Pair (Inr x)) f = f x"
  by (simp add: bnd_def)

lemma bnd_Inl [simp]: "bnd (Pair (Inl e)) f = Pair (Inl e)"
  by (simp add: bnd_def)

lemma bnd_emit: "bnd (emit c) f w = f () (w\<lparr>calls := calls w @ [c]\<rparr>)"
  by (simp add: bnd_def emit_def)

lemma bnd_apply:
  "bnd m f w = (case m w of (Inl e, w') \<Rightarrow> (Inl e, w') | (Inr x, w') \<Rightarrow> f x w')"
  by (simp add: bnd_def)

lemma ret_apply: "ret x w = (Inr x, w)"
  by (simp add: ret_def)

lemma throw_apply: "throw e w = (Inl e, w)"
  by (simp add: throw_def)

lemma error_apply: "error msg w = (Inl (Fatal msg), w)"
  by (simp add: error_def throw_def)

lemma emit_apply: "emit c w = (Inr (), w\<lparr>calls := calls w @ [c]\<rparr>)"
  by (simp add: emit_def)

lemmas prog_simps = bnd_emit ret_apply throw_apply error_apply emit_apply

lemma whenM_True [simp]: "whenM True m = m"
  by (simp add: whenM_def)

lemma whenM_False [simp]: "whenM False m = ret ()"
  by (simp add: whenM_def)

text \<open>A loop whose body is one call makes the calls of its elements, in order.\<close>

lemma for_each_emit:
  "for_each xs (\<lambda>x. emit (g x)) w = (Inr (), w\<lparr>calls := calls w @ map g xs\<rparr>)"
proof (induction xs arbitrary: w)
  case Nil
  show ?case by (simp add: ret_def)
next
  case (Cons x xs)
  show ?case by (simp add: bnd_emit Cons.IH)
qed

lemma for_each_get_file:
  "for_each xs (\<lambda>(it, t). get_file t (g it) ud) w =
     (Inr (), w\<lparr>calls := calls w @ map (\<lambda>(it, t). GetFile t (g it) ud) xs\<rparr>)"
proof (induction xs arbitrary: w)
  case Nil
  show ?case by (simp add: ret_apply)
next
  case (Cons x xs)
  show ?case by (cases x) (simp add: get_file_def bnd_emit Cons.IH [unfolded get_file_def])
qed

lemma for_each_when_emit:
  "for_each xs (\<lambda>x. whenM (p x) (emit (g x))) w =
     (Inr (), w\<lparr>calls := calls w @ map g (filter p xs)\<rparr>)"
proof (induction xs arbitrary: w)
  case Nil
  show ?case by (simp add: ret_apply)
next
  case (Cons x xs)
  show ?case by (cases "p x") (simp_all add: bnd_emit Cons.IH)
qed

subsection \<open>Dicts\<close>

lemma map_of_rev_distinct: "distinct (map fst xs) \<Longrightarrow> map_of (rev xs) = map_of xs"
  by (subst map_of_inject_set) (simp_all add: rev_map [symmetric])

lemma lookup_fold_update:
  "DAList.lookup (fold (\<lambda>(k, v). DAList.update k v) xs d) k' =
     (case map_of (rev xs) k' of None \<Rightarrow> DAList.lookup d k' | Some v \<Rightarrow> Some v)"
proof (induction xs arbitrary: d)
  case Nil
  show ?case by simp
next
  case (Cons x xs)
  obtain k v where x: "x = (k, v)" by (cases x)
  show ?case
    by (simp add: Cons.IH x DAList.lookup_update map_add_def split: option.splits)
qed

lemma lookup_dict_union:
  "DAList.lookup (dict_union d1 d2) k =
     (case DAList.lookup d2 k of None \<Rightarrow> DAList.lookup d1 k | Some v \<Rightarrow> Some v)"
proof -
  have r: "map_of (rev (DAList.impl_of d2)) = DAList.lookup d2"
    by (simp add: map_of_rev_distinct DAList.lookup.rep_eq)
  show ?thesis
    unfolding dict_union_def lookup_fold_update r ..
qed

lemma count_list_distinct:
  "distinct xs \<Longrightarrow> count_list xs x = (if x \<in> set xs then 1 else 0)"
  by (induction xs) auto

lemma count_list_dict_keys:
  "count_list (dict_keys d) k = (case DAList.lookup d k of None \<Rightarrow> 0 | Some p \<Rightarrow> 1)"
proof -
  have "distinct (dict_keys d)"
    by (simp add: dict_keys_def)
  then have "count_list (dict_keys d) k = (if k \<in> set (dict_keys d) then 1 else 0)"
    by (rule count_list_distinct)
  moreover have "k \<in> set (dict_keys d) \<longleftrightarrow> DAList.lookup d k \<noteq> None"
    by (simp add: dict_keys_def DAList.lookup.rep_eq map_of_eq_None_iff)
  ultimately show ?thesis
    by (auto split: option.splits)
qed

lemma count_list_enable_calls:
  "count_list (map (\<lambda>task. EnableTask task True) ks) (EnableTask k True) = count_list ks k"
  by (induction ks) auto

subsection \<open>The blocks of the script in closed form\<close>

lemma test_task_eq:
  "test_task env s w =
     (if load_from_yaml env s test_params = Inl YAMLError
      then from_multiline_string env ''action_test'' s test_params
      else load_from_yaml env s test_params,
      w\<lparr>calls := calls w @ LoadFromYaml s test_params #
         (if load_from_yaml env s test_params = Inl YAMLError
          then [FromMultilineString ''action_test'' s test_params] else [])\<rparr>)"
  by (simp add: test_task_def prog_simps split: sum.splits exn.splits)

lemma prepare_image_eq:
  "prepare_image repo ref ud img a size' ty w =
     (if img = ''none'' then (Inr (), w)
      else (Inr (),
            w\<lparr>calls := calls w @
                 [BurnRootfsImage ud
                    (if strip img = '''' then DEFAULT_IMAGE_PATH repo ref a else img) a size' ty],
              commands := commands w @
                 [[''sudo'', ''mount'', ''images/rootfs.img'', ''rootfs'']]\<rparr>))"
  by (simp add: prepare_image_def prog_simps)

lemma enable_optional_tasks_eq:
  "enable_optional_tasks opt w =
     (Inr (), w\<lparr>calls := calls w @ map (\<lambda>task. EnableTask task True) (dict_keys opt)\<rparr>)"
  by (simp add: enable_optional_tasks_def for_each_emit)

lemma disable_network_tasks_off:
  assumes "dict_get args ''network'' ''true'' \<noteq> ''true''
           \<or> (\<exists>r. archs env a = Some r \<and> \<not> network_available r)"
  shows "disable_network_tasks env args a w =
     (Inr (), w\<lparr>calls := calls w @ [EnableTask ''host_network'' False,
        EnableTask ''renode_network'' False, EnableTask ''target_network'' False]\<rparr>)"
  using assms
  by (auto simp: disable_network_tasks_def archs_getitem_def whenM_def prog_simps for_each_emit)

lemma disable_network_tasks_on:
  assumes "dict_get args ''network'' ''true'' = ''true''"
    and "archs env a = Some r" and "network_available r"
  shows "disable_network_tasks env args a w = (Inr (), w)"
  using assms
  by (simp add: disable_network_tasks_def archs_getitem_def whenM_def prog_simps)

lemma disable_network_tasks_KeyError:
  assumes "dict_get args ''network'' ''true'' = ''true''" and "archs env a = None"
  shows "disable_network_tasks env args a w = (Inl (KeyError a), w)"
  using assms
  by (simp add: disable_network_tasks_def archs_getitem_def whenM_def prog_simps)

lemma disable_network_tasks_cases:
  "disable_network_tasks env args a w = (Inl (KeyError a), w)
   \<or> disable_network_tasks env args a w = (Inr (), w)
   \<or> disable_network_tasks env args a w =
       (Inr (), w\<lparr>calls := calls w @ [EnableTask ''host_network'' False,
          EnableTask ''renode_network'' False, EnableTask ''target_network'' False]\<rparr>)"
  by (auto simp: disable_network_tasks_def archs_getitem_def whenM_def prog_simps for_each_emit
      split: option.splits)

lemma dispatch_unfold:
  "dispatch env args a board opt w =
     (case disable_network_tasks env args a
             (w\<lparr>calls := calls w @ NewDispatcher board (template_variables env board) opt #
                 map (\<lambda>task. EnableTask task True) (dict_keys opt)\<rparr>) of
        (Inl e, w2) \<Rightarrow> (Inl e, w2)
      | (Inr u, w2) \<Rightarrow>
          (case test_task env (dict_get args ''renode-run'' '''') w2 of
             (Inl e, w3) \<Rightarrow> (Inl e, w3)
           | (Inr t, w3) \<Rightarrow> (Inr (), w3\<lparr>calls := calls w3 @ [AddTask t, Evaluate]\<rparr>)))"
  by (simp add: dispatch_def bnd_emit bnd_apply enable_optional_tasks_eq emit_apply
      split: prod.splits sum.splits)

lemma finish_eq:
  "finish env ud w =
     (Inr (), w\<lparr>calls := calls w @ map Run (commands w) @
        map (\<lambda>dir. CopyTree (''rootfs/'' @ target dir)
               (if take 1 (host dir) \<noteq> ''/'' then ud @ ''/'' @ host dir else host dir))
          (filter (\<lambda>dir. path_exists env (''rootfs/'' @ target dir))
             (shared_directories_actions env))\<rparr>)"
  by (simp add: finish_def bnd_apply for_each_emit for_each_when_emit)

lemma configure_board_commands:
  "commands (snd (configure_board env ud cc a board resc repl w)) = commands w"
  by (simp add: configure_board_def whenM_def archs_getitem_def get_file_def prog_simps
      split: option.splits)

lemma stage_unfold:
  "stage env args ud repo ref w =
     (case configure_board env ud
            (dict_get args ''custom-config'' ''none'')
            (dict_get args ''arch'' ''riscv64'')
            (dict_get args ''board'' ''default'')
            (dict_get args ''resc'' ''default'')
            (dict_get args ''repl'' ''default'') w of
        (Inl e, w1) \<Rightarrow> (Inl e, w1)
      | (Inr (a, board), w1) \<Rightarrow>
          if strip (dict_get args ''kernel'' '''') = '''' \<and> board = ''custom''
          then (Inl (Fatal ''You have to provide custom kernel for custom board.''), w1)
          else
            (Inr (a, board,
                  dict_union (add_devices env (dict_get args ''devices'' ''''))
                    (add_packages env a (dict_get args ''python-packages'' ''''))),
             w1\<lparr>calls := calls w1 @
                  [PrepareKernelAndInitramfs ud
                     (if strip (dict_get args ''kernel'' '''') = ''''
                      then DEFAULT_KERNEL_PATH repo ref a board
                      else dict_get args ''kernel'' ''''),
                   PrepareSharedDirectories (dict_get args ''shared-dirs'' ''''),
                   AddDevices (dict_get args ''devices'' ''''),
                   AddPackages a (dict_get args ''python-packages'' ''''),
                   AddRepos (dict_get args ''repos'' '''')] @
                  (if dict_get args ''image'' '''' = ''none'' then []
                   else [BurnRootfsImage ud
                           (if strip (dict_get args ''image'' '''') = ''''
                            then DEFAULT_IMAGE_PATH repo ref a
                            else dict_get args ''image'' '''')
                           a (dict_get args ''rootfs-size'' ''auto'')
                           (dict_get args ''image-type'' ''native'')]) @
                  map (\<lambda>(it, t). GetFile t (''action/user_tasks/task'' @ str_nat it @ ''.yml'') ud)
                    (enumerate_list (splitlines (dict_get args ''tasks'' ''''))),
                commands := commands w1 @
                  (if dict_get args ''image'' '''' = ''none'' then []
                   else [[''sudo'', ''mount'', ''images/rootfs.img'', ''rootfs'']])\<rparr>))"
  by (simp add: stage_def bnd_apply prepare_image_eq for_each_get_file prog_simps
      split: prod.splits sum.splits)

lemma main_unfold:
  assumes "length argv = 5" and "json_loads env (argv ! 1) = JObject args"
    and "stage env args (argv ! 2) (argv ! 3) (argv ! 4) w = (Inr (a, board, opt), w1)"
  shows "main env argv w =
     (case dispatch env args a board opt w1 of
        (Inl e, w2) \<Rightarrow> (Inl e, w2)
      | (Inr u, w2) \<Rightarrow> finish env (argv ! 2) w2)"
  using assms by (simp add: main_def bnd_apply)

lemma name_apply_test_params: "name (apply_params test_params t) = ''action_test''"
  by (simp add: apply_params_def test_params_def override_def)

text \<open>The rules that evaluate a run in the concrete environment.\<close>

lemmas eval_simps = main_def bnd_apply stage_unfold dispatch_unfold finish_eq configure_board_def
  example_env_def example_argv_def initial_world_def dict_get_def archs_getitem_def prog_simps
  strip_def is_space_def get_file_def
  disable_network_tasks_def for_each_emit test_task_eq dict_keys_def dict_union_def
  DAList.empty.rep_eq DAList.update.rep_eq DAList.lookup.rep_eq
  splitlines_def enumerate_list_def template_variables_def

subsection \<open>Calls that disable a task\<close>

lemma filter_disable_get_files:
  "filter is_disable (map (\<lambda>(it, t). GetFile t (g it) ud) xs) = []"
  by (induction xs) (auto simp: is_disable_def)

lemma filter_disable_enable_calls:
  "filter is_disable (map (\<lambda>task. EnableTask task True) ks) = []"
  by (induction ks) (auto simp: is_disable_def)

lemma filter_disable_run: "filter is_disable (map Run cs) = []"
  by (induction cs) (auto simp: is_disable_def)

lemma filter_disable_copy: "filter is_disable (map (\<lambda>dir. CopyTree (f dir) (g dir)) ds) = []"
  by (induction ds) (auto simp: is_disable_def)

lemma configure_board_no_disable:
  "filter is_disable (calls (snd (configure_board env ud cc a board resc repl w)))
     = filter is_disable (calls w)"
  by (simp add: configure_board_def whenM_def archs_getitem_def get_file_def prog_simps
      is_disable_def split: option.splits)

lemma stage_no_disable:
  "filter is_disable (calls (snd (stage env args ud repo ref w))) = filter is_disable (calls w)"
proof -
  let ?cb = "configure_board env ud
            (dict_get args ''custom-config'' ''none'')
            (dict_get args ''arch'' ''riscv64'')
            (dict_get args ''board'' ''default'')
            (dict_get args ''resc'' ''default'')
            (dict_get args ''repl'' ''default'') w"
  obtain res w1 where cb: "?cb = (res, w1)"
    by (cases ?cb)
  have "filter is_disable (calls (snd ?cb)) = filter is_disable (calls w)"
    by (rule configure_board_no_disable)
  then have w1: "filter is_disable (calls w1) = filter is_disable (calls w)"
    by (simp add: cb)
  show ?thesis
    by (simp add: stage_unfold cb w1 filter_disable_get_files is_disable_def
        split: sum.splits prod.splits)
qed

text \<open>The calls of the block of lines 179 to 193 that disable a task.\<close>

lemma dispatch_disable_calls_off:
  assumes "dict_get args ''network'' ''true'' \<noteq> ''true''
      \<or> (\<exists>r. archs env a = Some r \<and> \<not> network_available r)"
  shows "filter is_disable (calls (snd (dispatch env args a board opt w)))
     = filter is_disable (calls w) @
       [EnableTask ''host_network'' False, EnableTask ''renode_network'' False,
        EnableTask ''target_network'' False]"
  by (simp add: dispatch_unfold disable_network_tasks_off [OF assms] test_task_eq is_disable_def
      filter_disable_enable_calls [unfolded is_disable_def] split: sum.splits)

lemma dispatch_disable_calls_on:
  assumes "dict_get args ''network'' ''true'' = ''true''"
    and "archs env a = Some r" and "network_available r"
  shows "filter is_disable (calls (snd (dispatch env args a board opt w)))
     = filter is_disable (calls w)"
  by (simp add: dispatch_unfold disable_network_tasks_on [OF assms] test_task_eq is_disable_def
      filter_disable_enable_calls [unfolded is_disable_def] split: sum.splits)

section \<open>The claims\<close>

text \<open>
  Claim C1. For every test-task string \<open>s\<close>, \<open>test_task(s)\<close> first calls
  \<open>Task.load_from_yaml(s)\<close> with the overrides name \<open>action_test\<close>, shell \<open>target\<close>,
  requires \<open>chroot\<close> and \<open>python\<close>, echo true. It calls
  \<open>Task.from_multiline_string("action_test", s, params)\<close>, with the same parameters, if
  and only if that first call raises a YAML error, and then returns what this second call
  gives; otherwise the outcome of the first call is the outcome of \<open>test_task\<close>.
\<close>

theorem test_task_fallback_iff_yaml_error:
  "take (Suc (length (calls w))) (calls (snd (test_task env s w)))
     = calls w @ [LoadFromYaml s
         [(''name'', Str ''action_test''), (''shell'', Str ''target''),
          (''requires'', StrList [''chroot'', ''python'']), (''echo'', Bool True)]]
   \<and> (FromMultilineString ''action_test'' s test_params
         \<in> set (drop (length (calls w)) (calls (snd (test_task env s w)))))
       = (load_from_yaml env s test_params = Inl YAMLError)
   \<and> list_ex (\<lambda>c. case c of FromMultilineString n t p \<Rightarrow> True | _ \<Rightarrow> False)
         (drop (length (calls w)) (calls (snd (test_task env s w))))
       = (load_from_yaml env s test_params = Inl YAMLError)
   \<and> fst (test_task env s w)
       = (if load_from_yaml env s test_params = Inl YAMLError
          then from_multiline_string env ''action_test'' s test_params
          else load_from_yaml env s test_params)"
  by (simp add: test_task_eq) (simp add: test_params_def)

text \<open>
  Claim C3, amended. In every run that reaches the dispatcher, that is, the command line
  has five words, its first argument is a JSON object and the staging of lines 144 to 177
  returns: if the network input is not \<open>true\<close>, or the selected architecture has no
  network, the calls \<open>enable_task(name, False)\<close> of the whole run are exactly those for
  \<open>host_network\<close>, \<open>renode_network\<close> and \<open>target_network\<close>, in this order; if the
  network input is \<open>true\<close> and the architecture has network, the run makes no such call.
\<close>

theorem network_tasks_disabled:
  assumes "length argv = 5" and "json_loads env (argv ! 1) = JObject args"
    and "fst (stage env args (argv ! 2) (argv ! 3) (argv ! 4) initial_world)
           = Inr (a, board, opt)"
  shows "(dict_get args ''network'' ''true'' \<noteq> ''true''
      \<or> (\<exists>r. archs env a = Some r \<and> \<not> network_available r)
    \<longrightarrow> filter is_disable (calls (snd (main env argv initial_world)))
          = [EnableTask ''host_network'' False, EnableTask ''renode_network'' False,
             EnableTask ''target_network'' False])
   \<and> (dict_get args ''network'' ''true'' = ''true''
      \<and> (\<exists>r. archs env a = Some r \<and> network_available r)
    \<longrightarrow> filter is_disable (calls (snd (main env argv initial_world))) = [])"
proof -
  obtain w1 where st:
    "stage env args (argv ! 2) (argv ! 3) (argv ! 4) initial_world = (Inr (a, board, opt), w1)"
    using assms(3)
    by (cases "stage env args (argv ! 2) (argv ! 3) (argv ! 4) initial_world") auto
  have "filter is_disable (calls (snd (stage env args (argv ! 2) (argv ! 3) (argv ! 4)
          initial_world))) = filter is_disable (calls initial_world)"
    by (rule stage_no_disable)
  then have "filter is_disable (calls w1) = filter is_disable (calls initial_world)"
    by (simp only: st snd_conv)
  then have w1: "filter is_disable (calls w1) = []"
    by (simp add: initial_world_def)
  have run: "filter is_disable (calls (snd (main env argv initial_world)))
      = filter is_disable (calls (snd (dispatch env args a board opt w1)))"
    by (simp add: main_unfold [OF assms(1,2) st] finish_eq filter_disable_run
        filter_disable_copy split: prod.splits sum.splits)
  show ?thesis
  proof (intro conjI impI)
    assume off: "dict_get args ''network'' ''true'' \<noteq> ''true''
      \<or> (\<exists>r. archs env a = Some r \<and> \<not> network_available r)"
    show "filter is_disable (calls (snd (main env argv initial_world)))
          = [EnableTask ''host_network'' False, EnableTask ''renode_network'' False,
             EnableTask ''target_network'' False]"
      by (simp add: run dispatch_disable_calls_off [OF off] w1)
  next
    assume "dict_get args ''network'' ''true'' = ''true''
      \<and> (\<exists>r. archs env a = Some r \<and> network_available r)"
    then obtain r where on: "dict_get args ''network'' ''true'' = ''true''"
        "archs env a = Some r" "network_available r"
      by blast
    show "filter is_disable (calls (snd (main env argv initial_world))) = []"
      by (simp add: run dispatch_disable_calls_on [OF on] w1)
  qed
qed

theorem network_tasks_disabled_witness:
  "length example_argv = 5
   \<and> json_loads (example_env (map_of [(''network'', ''false'')])) (example_argv ! 1)
       = JObject (map_of [(''network'', ''false'')])
   \<and> fst (stage (example_env (map_of [(''network'', ''false'')]))
            (map_of [(''network'', ''false'')])
            (example_argv ! 2) (example_argv ! 3) (example_argv ! 4) initial_world)
       = Inr (''riscv64'', ''hifive_unleashed'', dict_union DAList.empty DAList.empty)
   \<and> dict_get (map_of [(''network'', ''false'')]) ''network'' ''true'' \<noteq> ''true''
   \<and> filter is_disable
        (calls (snd (main (example_env (map_of [(''network'', ''false'')])) example_argv
           initial_world)))
       = [EnableTask ''host_network'' False, EnableTask ''renode_network'' False,
          EnableTask ''target_network'' False]
   \<and> length example_argv = 5
   \<and> json_loads (example_env Map.empty) (example_argv ! 1) = JObject Map.empty
   \<and> fst (stage (example_env Map.empty) Map.empty
            (example_argv ! 2) (example_argv ! 3) (example_argv ! 4) initial_world)
       = Inr (''riscv64'', ''hifive_unleashed'', dict_union DAList.empty DAList.empty)
   \<and> dict_get Map.empty ''network'' ''true'' = ''true''
   \<and> archs (example_env Map.empty) ''riscv64''
       = Some \<lparr>default_board = ''hifive_unleashed'', network_available = True\<rparr>
   \<and> filter is_disable
        (calls (snd (main (example_env Map.empty) example_argv initial_world)))
       = []"
proof -
  let ?off = "map_of [(''network'', ''false'')]"
  have h1: "length example_argv = 5"
    by (simp add: example_argv_def)
  have h2: "json_loads (example_env ?off) (example_argv ! 1) = JObject ?off"
    by (simp add: example_env_def)
  have h3: "fst (stage (example_env ?off) ?off
            (example_argv ! 2) (example_argv ! 3) (example_argv ! 4) initial_world)
       = Inr (''riscv64'', ''hifive_unleashed'', dict_union DAList.empty DAList.empty)"
    by (simp add: stage_unfold configure_board_def example_env_def initial_world_def
        dict_get_def archs_getitem_def prog_simps strip_def)
  have k2: "json_loads (example_env Map.empty) (example_argv ! 1) = JObject Map.empty"
    by (simp add: example_env_def)
  have k3: "fst (stage (example_env Map.empty) Map.empty
            (example_argv ! 2) (example_argv ! 3) (example_argv ! 4) initial_world)
       = Inr (''riscv64'', ''hifive_unleashed'', dict_union DAList.empty DAList.empty)"
    by (simp add: stage_unfold configure_board_def example_env_def initial_world_def
        dict_get_def archs_getitem_def prog_simps strip_def)
  show ?thesis
    using h1 h2 h3 k2 k3 network_tasks_disabled [OF h1 h2 h3] network_tasks_disabled [OF h1 k2 k3]
    by (simp add: dict_get_def example_env_def)
qed

text \<open>
  The claim as stated fails: a run with the network input \<open>false\<close> and an architecture
  outside the table ends at line 72 and disables nothing.
\<close>

theorem network_off_unsupported_arch_counterexample:
  "dict_get (map_of [(''network'', ''false''), (''arch'', ''sparc'')]) ''network'' ''true''
     \<noteq> ''true''
   \<and> fst (main (example_env (map_of [(''network'', ''false''), (''arch'', ''sparc'')]))
          example_argv initial_world)
       = Inl (Fatal ''Architecture not supportted!'')
   \<and> filter is_disable
        (calls (snd (main (example_env (map_of [(''network'', ''false''), (''arch'', ''sparc'')]))
           example_argv initial_world)))
       = []"
  by (simp add: eval_simps)

text \<open>
  Claim C5. The first call of the block is the construction of the dispatcher, and
  after it, for every task name, the call \<open>enable_task(name, True)\<close> is made once if the
  name is a key of the merged optional tasks and not at all otherwise.
\<close>

theorem optional_tasks_enabled_once:
  "take 1 (drop (length (calls w)) (calls (snd (dispatch env args a board opt w))))
     = [NewDispatcher board (template_variables env board) opt]
   \<and> count_list (drop (length (calls w)) (calls (snd (dispatch env args a board opt w))))
        (EnableTask task True)
     = (case DAList.lookup opt task of None \<Rightarrow> 0 | Some p \<Rightarrow> 1)"
  using disable_network_tasks_cases [of env args a
      "w\<lparr>calls := calls w @ NewDispatcher board (template_variables env board) opt #
                 map (\<lambda>task. EnableTask task True) (dict_keys opt)\<rparr>"]
  by (elim disjE; simp add: dispatch_unfold test_task_eq count_list_enable_calls
      count_list_dict_keys split: sum.splits)

text \<open>
  Claim C7. With the constructors of \<open>Task\<close> as the specification describes them,
  \<open>test_task\<close> applied to the empty string returns a task named \<open>action_test\<close> and raises
  nothing, whatever the YAML parser makes of the empty string.
\<close>

theorem test_task_empty_string:
  "map_sum id name (fst (test_task (spec_tasks parse defaults env) '''' w)) = Inr ''action_test''"
  by (simp add: test_task_eq spec_tasks_def Task_load_from_yaml_def Task_from_multiline_string_def
      name_apply_test_params split: option.splits)

text \<open>
  Claim C2, amended. In \<open>configure_board\<close>, when \<open>custom_config\<close> is \<open>none\<close> and both
  \<open>resc\<close> and \<open>repl\<close> differ from \<open>default\<close>: if the architecture is in the table \<open>archs\<close>,
  exactly two files are fetched, the init script and the platform description of the
  board, and both from \<open>resc\<close>, so that the result does not depend on \<open>repl\<close>; if the
  architecture is not in the table, the guard of lines 71 and 72 ends the run and nothing
  is fetched.
\<close>

theorem configure_board_resc_twice:
  assumes "resc \<noteq> ''default''" and "repl \<noteq> ''default''"
  shows "(archs env a = Some r \<longrightarrow>
      configure_board env ud ''none'' a board resc repl w =
       (Inr (a, if board = ''default'' then default_board r else board),
        w\<lparr>calls := calls w @
          [GetFile resc
             (''action/device/'' @ (if board = ''default'' then default_board r else board)
                @ ''/init.resc'') ud,
           GetFile resc
             (''action/device/'' @ (if board = ''default'' then default_board r else board)
                @ ''/platform.repl'') ud]\<rparr>))
   \<and> (archs env a = None \<longrightarrow>
      configure_board env ud ''none'' a board resc repl w =
       (Inl (Fatal ''Architecture not supportted!''), w))"
  using assms
  by (simp add: configure_board_def whenM_def archs_getitem_def get_file_def prog_simps)

theorem configure_board_resc_twice_witness:
  "''my.resc'' \<noteq> ''default'' \<and> ''my.repl'' \<noteq> ''default''
   \<and> archs (example_env Map.empty) ''riscv64''
      = Some \<lparr>default_board = ''hifive_unleashed'', network_available = True\<rparr>
   \<and> configure_board (example_env Map.empty) ''/github/workspace'' ''none'' ''riscv64'' ''default''
       ''my.resc'' ''my.repl'' initial_world
     = (Inr (''riscv64'', ''hifive_unleashed''),
        \<lparr>calls =
           [GetFile ''my.resc'' ''action/device/hifive_unleashed/init.resc'' ''/github/workspace'',
            GetFile ''my.resc'' ''action/device/hifive_unleashed/platform.repl''
              ''/github/workspace''],
         commands = [[''mkdir'', ''rootfs'']]\<rparr>)
   \<and> archs (example_env Map.empty) ''sparc'' = None
   \<and> configure_board (example_env Map.empty) ''/github/workspace'' ''none'' ''sparc'' ''custom''
       ''my.resc'' ''my.repl'' initial_world
     = (Inl (Fatal ''Architecture not supportted!''),
        \<lparr>calls = [], commands = [[''mkdir'', ''rootfs'']]\<rparr>)"
proof -
  have h1: "''my.resc'' \<noteq> ''default''" and h2: "''my.repl'' \<noteq> ''default''"
    by simp_all
  show ?thesis
    using configure_board_resc_twice [OF h1 h2, of "example_env Map.empty" "''riscv64''"
        "\<lparr>default_board = ''hifive_unleashed'', network_available = True\<rparr>"
        "''/github/workspace''" "''default''" initial_world]
      configure_board_resc_twice [OF h1 h2, of "example_env Map.empty" "''sparc''"
        "\<lparr>default_board = ''hifive_unleashed'', network_available = True\<rparr>"
        "''/github/workspace''" "''custom''" initial_world]
    by (simp add: example_env_def initial_world_def)
qed

text \<open>
  The claim as stated fails for an architecture that is not in the table: the run ends
  at line 72 and nothing is fetched.
\<close>

theorem configure_board_unsupported_arch_counterexample:
  "''my.resc'' \<noteq> ''default'' \<and> ''my.repl'' \<noteq> ''default''
   \<and> fst (configure_board (example_env Map.empty) ''/github/workspace'' ''none'' ''sparc''
            ''default'' ''my.resc'' ''my.repl'' initial_world)
       = Inl (Fatal ''Architecture not supportted!'')
   \<and> calls (snd (configure_board (example_env Map.empty) ''/github/workspace'' ''none'' ''sparc''
            ''default'' ''my.resc'' ''my.repl'' initial_world))
       = []"
  by (simp add: eval_simps)

text \<open>
  Claim C4. The union of the device tasks and the python-package tasks maps every name to
  the entry of the python packages if they have one, and to the entry of the devices
  otherwise: a name in both takes the python-packages entry, a name in one of them keeps
  its entry, and no other name is added. The optional tasks that the staging block hands
  on are this union of what \<open>add_devices\<close> and \<open>add_packages\<close> returned.
\<close>

theorem optional_tasks_union:
  "DAList.lookup (dict_union devices python_packages) k =
     (case DAList.lookup python_packages k of
        Some p \<Rightarrow> Some p
      | None \<Rightarrow> DAList.lookup devices k)
   \<and> (fst (stage env args ud repo ref w) = Inr (a, board, optional_tasks) \<longrightarrow>
        optional_tasks =
          dict_union (add_devices env (dict_get args ''devices'' ''''))
            (add_packages env a (dict_get args ''python-packages'' '''')))"
  by (auto simp: lookup_dict_union stage_unfold split: option.splits prod.splits sum.splits
      if_splits)

theorem optional_tasks_union_witness:
  "fst (stage (example_env Map.empty)
          (map_of [(''devices'', ''gpio''), (''python-packages'', ''numpy'')])
          ''/github/workspace'' ''owner/action'' ''v1'' initial_world)
     = Inr (''riscv64'', ''hifive_unleashed'',
            dict_union (DAList.update ''shared'' 2 (DAList.update ''gpio'' 1 DAList.empty))
              (DAList.update ''numpy'' 4 (DAList.update ''shared'' 3 DAList.empty)))
   \<and> DAList.lookup
        (dict_union (DAList.update ''shared'' 2 (DAList.update ''gpio'' 1 DAList.empty))
           (DAList.update ''numpy'' 4 (DAList.update ''shared'' (3 :: nat) DAList.empty)))
        ''shared'' = Some 3
   \<and> DAList.lookup
        (dict_union (DAList.update ''shared'' 2 (DAList.update ''gpio'' 1 DAList.empty))
           (DAList.update ''numpy'' 4 (DAList.update ''shared'' (3 :: nat) DAList.empty)))
        ''gpio'' = Some 1
   \<and> DAList.lookup
        (dict_union (DAList.update ''shared'' 2 (DAList.update ''gpio'' 1 DAList.empty))
           (DAList.update ''numpy'' 4 (DAList.update ''shared'' (3 :: nat) DAList.empty)))
        ''numpy'' = Some 4"
proof -
  let ?args = "map_of [(''devices'', ''gpio''), (''python-packages'', ''numpy'')]"
  let ?dev = "DAList.update ''shared'' 2 (DAList.update ''gpio'' (1 :: nat) DAList.empty)"
  let ?pkg = "DAList.update ''numpy'' 4 (DAList.update ''shared'' (3 :: nat) DAList.empty)"
  have h: "fst (stage (example_env Map.empty) ?args
          ''/github/workspace'' ''owner/action'' ''v1'' initial_world)
     = Inr (''riscv64'', ''hifive_unleashed'', dict_union ?dev ?pkg)"
    by (simp add: stage_unfold configure_board_def example_env_def initial_world_def
        dict_get_def archs_getitem_def prog_simps strip_def is_space_def)
  show ?thesis
    using h optional_tasks_union [of ?dev ?pkg "''shared''" "example_env Map.empty" ?args
        "''/github/workspace''" "''owner/action''" "''v1''" initial_world "''riscv64''"
        "''hifive_unleashed''" "dict_union ?dev ?pkg"]
      optional_tasks_union [of ?dev ?pkg "''gpio''" "example_env Map.empty" ?args
        "''/github/workspace''" "''owner/action''" "''v1''" initial_world "''riscv64''"
        "''hifive_unleashed''" "dict_union ?dev ?pkg"]
      optional_tasks_union [of ?dev ?pkg "''numpy''" "example_env Map.empty" ?args
        "''/github/workspace''" "''owner/action''" "''v1''" initial_world "''riscv64''"
        "''hifive_unleashed''" "dict_union ?dev ?pkg"]
    by (simp add: DAList.lookup_update example_env_def dict_get_def)
qed

text \<open>
  Claim C6, amended. When the block of lines 179 to 193 completes, its calls are, in this
  order: the construction of the dispatcher with the optional tasks, the activation
  rules (every optional task enabled, then the three network tasks disabled if the
  network input is not \<open>true\<close> or the architecture has no network, and left alone
  otherwise), the calls that resolve the test task, \<open>add_task\<close> with the resolved task,
  and last \<open>evaluate\<close>.
\<close>

theorem dispatch_order:
  assumes fin: "fst (dispatch env args a board opt w) = Inr ()"
  shows "\<exists>t.
     fst (test_task env (dict_get args ''renode-run'' '''') w) = Inr t
     \<and> calls (snd (dispatch env args a board opt w)) =
       calls w @ [NewDispatcher board (template_variables env board) opt]
        @ map (\<lambda>task. EnableTask task True) (dict_keys opt)
        @ (if dict_get args ''network'' ''true'' \<noteq> ''true''
              \<or> (\<exists>r. archs env a = Some r \<and> \<not> network_available r)
           then [EnableTask ''host_network'' False, EnableTask ''renode_network'' False,
             EnableTask ''target_network'' False] else [])
        @ drop (length (calls w)) (calls (snd (test_task env (dict_get args ''renode-run'' '''') w)))
        @ [AddTask t, Evaluate]"
proof -
  let ?w1 = "w\<lparr>calls := calls w @ NewDispatcher board (template_variables env board) opt #
                 map (\<lambda>task. EnableTask task True) (dict_keys opt)\<rparr>"
  let ?s = "dict_get args ''renode-run'' ''''"
  let ?off = "dict_get args ''network'' ''true'' \<noteq> ''true''
              \<or> (\<exists>r. archs env a = Some r \<and> \<not> network_available r)"
  let ?three = "[EnableTask ''host_network'' False, EnableTask ''renode_network'' False,
             EnableTask ''target_network'' False]"
  consider (off) ?off
    | (on) r where "dict_get args ''network'' ''true'' = ''true''" "archs env a = Some r"
        "network_available r"
    | (err) "dict_get args ''network'' ''true'' = ''true''" "archs env a = None"
    by (cases "archs env a") auto
  then show ?thesis
  proof cases
    case off
    have gate: "disable_network_tasks env args a ?w1
        = (Inr (), ?w1\<lparr>calls := calls ?w1 @ ?three\<rparr>)"
      by (rule disable_network_tasks_off [OF off])
    from fin gate obtain t where t: "fst (test_task env ?s w) = Inr t"
      by (auto simp: dispatch_unfold test_task_eq split: sum.splits)
    have "calls (snd (dispatch env args a board opt w)) =
       calls w @ [NewDispatcher board (template_variables env board) opt]
        @ map (\<lambda>task. EnableTask task True) (dict_keys opt)
        @ (if ?off then ?three else [])
        @ drop (length (calls w)) (calls (snd (test_task env ?s w)))
        @ [AddTask t, Evaluate]"
      using off t by (simp add: dispatch_unfold gate test_task_eq split: sum.splits)
    with t show ?thesis by blast
  next
    case on
    have gate: "disable_network_tasks env args a ?w1 = (Inr (), ?w1)"
      by (rule disable_network_tasks_on [OF on])
    from on have noff: "\<not> ?off"
      by simp
    from fin gate obtain t where t: "fst (test_task env ?s w) = Inr t"
      by (auto simp: dispatch_unfold test_task_eq split: sum.splits)
    have "calls (snd (dispatch env args a board opt w)) =
       calls w @ [NewDispatcher board (template_variables env board) opt]
        @ map (\<lambda>task. EnableTask task True) (dict_keys opt)
        @ (if ?off then ?three else [])
        @ drop (length (calls w)) (calls (snd (test_task env ?s w)))
        @ [AddTask t, Evaluate]"
      using noff t by (simp add: dispatch_unfold gate test_task_eq split: sum.splits)
    with t show ?thesis by blast
  next
    case err
    have "disable_network_tasks env args a ?w1 = (Inl (KeyError a), ?w1)"
      by (rule disable_network_tasks_KeyError [OF err])
    with fin show ?thesis
      by (simp add: dispatch_unfold)
  qed
qed

theorem dispatch_order_witness:
  "fst (dispatch (example_env Map.empty) (map_of [(''network'', ''false'')]) ''riscv64''
          ''hifive_unleashed'' (DAList.update ''gpio'' 1 DAList.empty) initial_world) = Inr ()
   \<and> (\<exists>t.
     fst (test_task (example_env Map.empty) '''' initial_world) = Inr t
     \<and> calls (snd (dispatch (example_env Map.empty) (map_of [(''network'', ''false'')]) ''riscv64''
          ''hifive_unleashed'' (DAList.update ''gpio'' 1 DAList.empty) initial_world)) =
       [NewDispatcher ''hifive_unleashed''
          (template_variables (example_env Map.empty) ''hifive_unleashed'')
          (DAList.update ''gpio'' 1 DAList.empty)]
        @ [EnableTask ''gpio'' True]
        @ [EnableTask ''host_network'' False, EnableTask ''renode_network'' False,
             EnableTask ''target_network'' False]
        @ calls (snd (test_task (example_env Map.empty) '''' initial_world))
        @ [AddTask t, Evaluate])"
proof -
  have h: "fst (dispatch (example_env Map.empty) (map_of [(''network'', ''false'')]) ''riscv64''
          ''hifive_unleashed'' (DAList.update ''gpio'' 1 DAList.empty) initial_world) = Inr ()"
    by (simp add: eval_simps)
  show ?thesis
    using h dispatch_order [OF h]
    by (simp add: initial_world_def dict_get_def dict_keys_def DAList.update.rep_eq
        DAList.empty.rep_eq)
qed

text \<open>
  The claim as stated fails: in a run with the network switched off, the three network
  tasks are disabled before the test task is added to the catalog.
\<close>

theorem catalog_order_counterexample:
  "\<not> catalog_complete_before_activation
       (calls (snd (main (example_env (map_of [(''network'', ''false'')])) example_argv
          initial_world)))"
  by (simp add: eval_simps catalog_complete_before_activation_def is_enable_task_def
      is_add_task_def)



text \<open>
  Claim C9, amended. With \<open>custom_config\<close> different from \<open>none\<close>, \<open>configure_board\<close>
  fetches the custom configuration and returns the architecture as given, with the
  board \<open>custom\<close>, whatever the table \<open>archs\<close> holds. For an architecture that is not in
  the table, line 187 raises \<open>KeyError\<close> exactly when the network input is \<open>true\<close>;
  otherwise the \<open>or\<close> does not evaluate the lookup and the three network tasks are
  disabled.
\<close>

theorem custom_config_skips_arch_validation:
  "(custom_config \<noteq> ''none'' \<longrightarrow>
      configure_board env ud custom_config a board resc repl w
        = (Inr (a, ''custom''),
           w\<lparr>calls := calls w @ [GetFile custom_config ''action/device/custom'' ud]\<rparr>))
   \<and> (archs env a = None \<longrightarrow>
      disable_network_tasks env args a w
        = (if dict_get args ''network'' ''true'' = ''true'' then (Inl (KeyError a), w)
           else (Inr (), w\<lparr>calls := calls w @ [EnableTask ''host_network'' False,
                   EnableTask ''renode_network'' False, EnableTask ''target_network'' False]\<rparr>)))"
  by (simp add: configure_board_def get_file_def prog_simps disable_network_tasks_KeyError
      disable_network_tasks_off)

theorem custom_config_skips_arch_validation_witness:
  "''my_board.zip'' \<noteq> ''none''
   \<and> archs (example_env Map.empty) ''sparc'' = None
   \<and> configure_board (example_env Map.empty) ''/github/workspace'' ''my_board.zip'' ''sparc''
        ''default'' ''default'' ''default'' initial_world
      = (Inr (''sparc'', ''custom''),
         \<lparr>calls = [GetFile ''my_board.zip'' ''action/device/custom'' ''/github/workspace''],
          commands = [[''mkdir'', ''rootfs'']]\<rparr>)
   \<and> disable_network_tasks (example_env Map.empty) Map.empty ''sparc'' initial_world
      = (Inl (KeyError ''sparc''), initial_world)"
  using custom_config_skips_arch_validation [of "''my_board.zip''" "example_env Map.empty"
      "''/github/workspace''" "''sparc''" "''default''" "''default''" "''default''"
      initial_world Map.empty]
  by (simp add: example_env_def initial_world_def dict_get_def)

text \<open>
  The claim as stated fails: with a custom configuration, an architecture outside the
  table and the network switched off, the run completes.
\<close>

theorem unknown_arch_run_counterexample:
  "archs (example_env Map.empty) ''sparc'' = None
   \<and> fst (main (example_env (map_of
          [(''custom-config'', ''my_board.zip''), (''arch'', ''sparc''),
           (''network'', ''false''), (''kernel'', ''kernel.tar.xz''), (''image'', ''none'')]))
        example_argv initial_world) = Inr ()"
  by (simp add: eval_simps)

text \<open>
  Claim C10. \<open>prepare_image\<close> with the image \<open>none\<close> returns and changes nothing; with any
  other image it makes one call of \<open>burn_rootfs_image\<close> and appends one mount command to
  \<open>commands\<close>. In the script the list holds only its initial entry when \<open>prepare_image\<close>
  is called: after the staging block it is the initial list if the image input is \<open>none\<close>,
  and the initial list followed by the mount command if the block returns with another
  image.
\<close>

theorem prepare_image_effect:
  "prepare_image repo ref ud ''none'' a size' ty w = (Inr (), w)
   \<and> (img \<noteq> ''none'' \<longrightarrow>
        prepare_image repo ref ud img a size' ty w
          = (Inr (),
             w\<lparr>calls := calls w @
                  [BurnRootfsImage ud
                     (if strip img = '''' then DEFAULT_IMAGE_PATH repo ref a else img)
                     a size' ty],
               commands := commands w @
                  [[''sudo'', ''mount'', ''images/rootfs.img'', ''rootfs'']]\<rparr>))
   \<and> (dict_get args ''image'' '''' = ''none'' \<longrightarrow>
        commands (snd (stage env args ud repo ref initial_world)) = [[''mkdir'', ''rootfs'']])
   \<and> (dict_get args ''image'' '''' \<noteq> ''none''
        \<and> fst (stage env args ud repo ref initial_world) = Inr r \<longrightarrow>
        commands (snd (stage env args ud repo ref initial_world))
          = [[''mkdir'', ''rootfs''], [''sudo'', ''mount'', ''images/rootfs.img'', ''rootfs'']])"
proof -
  let ?cb = "configure_board env ud
            (dict_get args ''custom-config'' ''none'')
            (dict_get args ''arch'' ''riscv64'')
            (dict_get args ''board'' ''default'')
            (dict_get args ''resc'' ''default'')
            (dict_get args ''repl'' ''default'') initial_world"
  obtain res w1 where cb: "?cb = (res, w1)"
    by (cases ?cb)
  have "commands (snd ?cb) = [[''mkdir'', ''rootfs'']]"
    by (simp add: configure_board_commands initial_world_def)
  then have w1: "commands w1 = [[''mkdir'', ''rootfs'']]"
    by (simp add: cb)
  have none: "dict_get args ''image'' '''' = ''none'' \<Longrightarrow>
      commands (snd (stage env args ud repo ref initial_world)) = [[''mkdir'', ''rootfs'']]"
    by (simp add: stage_unfold cb w1 split: sum.splits prod.splits)
  have other: "dict_get args ''image'' '''' \<noteq> ''none'' \<Longrightarrow>
      fst (stage env args ud repo ref initial_world) = Inr r \<Longrightarrow>
      commands (snd (stage env args ud repo ref initial_world))
        = [[''mkdir'', ''rootfs''], [''sudo'', ''mount'', ''images/rootfs.img'', ''rootfs'']]"
    by (simp add: stage_unfold cb w1 split: sum.splits prod.splits if_splits)
  show ?thesis
    using none other by (simp add: prepare_image_eq)
qed

theorem prepare_image_effect_witness:
  "''rootfs.tar.xz'' \<noteq> ''none''
   \<and> prepare_image ''owner/action'' ''v1'' ''/github/workspace'' ''rootfs.tar.xz'' ''riscv64''
        ''auto'' ''native'' (initial_world :: (string, nat) world)
      = (Inr (),
         \<lparr>calls = [BurnRootfsImage ''/github/workspace'' ''rootfs.tar.xz'' ''riscv64'' ''auto''
                     ''native''],
          commands = [[''mkdir'', ''rootfs''],
                      [''sudo'', ''mount'', ''images/rootfs.img'', ''rootfs'']]\<rparr>)
   \<and> dict_get (map_of [(''image'', ''none'')]) ''image'' '''' = ''none''
   \<and> commands (snd (stage (example_env Map.empty) (map_of [(''image'', ''none'')])
         ''/github/workspace'' ''owner/action'' ''v1'' initial_world))
      = [[''mkdir'', ''rootfs'']]"
  using prepare_image_effect [of "''owner/action''" "''v1''" "''/github/workspace''"
      "''riscv64''" "''auto''" "''native''" "initial_world :: (string, nat) world"
      "''rootfs.tar.xz''"
      "map_of [(''image'', ''none'')]" "example_env Map.empty"]
  by (simp add: initial_world_def dict_get_def strip_def is_space_def)

end
